theory Spec2Isabelle
  imports Main
begin

section \<open>Data of the bot\<close>

text \<open>
  The program is \<^verbatim>\<open>src/index.js\<close> (the Discord client, its command handler and
  its SIGINT handler) and \<^verbatim>\<open>src/stream.js\<close> (\<^verbatim>\<open>createStream\<close>).
  JavaScript strings are modelled as \<open>string\<close>, one \<open>char\<close> for one code unit
  (the literals of the program are ASCII, but for one arrow); a value that may be
  \<^verbatim>\<open>undefined\<close> or \<^verbatim>\<open>null\<close> is an \<open>option\<close>; a thrown exception or
  a rejected promise is a value of type \<open>error\<close>. The calls into discord.js,
  @discordjs/voice, naudiodon and the process are modelled by what their documentation
  says of them; what they answer (a cache, an exception, a rejected send) is an input.
\<close>

datatype ChannelType =
  GuildText | DM | GuildVoice | GroupDM | GuildCategory | GuildAnnouncement
  | GuildStageVoice | GuildForum

text \<open>A channel of discord.js, with the fields the program reads.\<close>

record channel =
  ch_id :: string
  ch_name :: string
  ch_type :: ChannelType
  ch_guild :: string

text \<open>
  A guild as a command sees it: \<open>guild_channels\<close> is \<^verbatim>\<open>guild.channels.cache\<close> in
  insertion order, \<open>me_voice\<close> is the id of
  \<^verbatim>\<open>guild.members.cache.get(client.user.id)?.voice.channel\<close> (\<open>None\<close> when the
  member or its voice channel is not cached).
\<close>

record guild =
  guild_id :: string
  guild_name :: string
  guild_channels :: "channel list"
  me_voice :: "string option"

text \<open>
  An inbound message: \<open>mentioned\<close> is the username of
  \<^verbatim>\<open>mentions.users.get(client.user.id)\<close>, \<open>None\<close> when the bot is not tagged.
\<close>

record message =
  content :: string
  mentioned :: "string option"
  msg_guild :: guild

text \<open>The device descriptor of naudiodon, with the fields the program reads.\<close>

record device =
  dev_id :: int
  dev_name :: string
  maxInputChannels :: nat
  defaultSampleRate :: int

datatype error = Error string | TypeError string | ReferenceError string

fun message_of :: "error \<Rightarrow> string" where
  "message_of (Error m) = m"
| "message_of (TypeError m) = m"
| "message_of (ReferenceError m) = m"

text \<open>
  The TypeError that reading a property of \<^verbatim>\<open>undefined\<close> throws (of
  \<^verbatim>\<open>null\<close> the message says null; the model does not tell the two apart).
\<close>

definition cannot_read :: "string \<Rightarrow> error" where
  "cannot_read prop =
     TypeError (''Cannot read properties of undefined (reading '' @ [CHR 0x27] @ prop
                @ [CHR 0x27] @ '')'')"

text \<open>\<^verbatim>\<open>messageEmbedTemplate\<close>: the timestamp of the embed is left out.\<close>

record embed =
  emb_color :: string
  emb_title :: string
  emb_description :: string
  emb_footer :: string

definition messageEmbedTemplate :: "string \<Rightarrow> string \<Rightarrow> embed" where
  "messageEmbedTemplate title content' =
     \<lparr>emb_color = ''#7289da'', emb_title = title, emb_description = content',
      emb_footer = ''Discord Audio Stream Bot''\<rparr>"

text \<open>
  What the program does to the outside, in the order it does it: console output, messages
  sent to the text channel, and the calls into discord.js, @discordjs/voice, naudiodon and
  the process.
\<close>

datatype effect =
  ConsoleLog string
  | ConsoleError string
  | ChannelSend embed
  | SetStatus string
  | CreateAudioPlayer
  | OpenAudioIO int
  | PlayerPlay
  | AudioStart
  | PlayerOn string
  | JoinVoiceChannel string string
  | Subscribe string
  | PlayerStop
  | ConnectionDestroy string
  | ClientDestroy
  | ProcessExit nat

datatype AudioPlayerStatus = Idle | Buffering | Paused | Playing | AutoPaused

text \<open>
  The audio player of @discordjs/voice, as far as the program acts on it: its status, and
  whether \<^verbatim>\<open>stop()\<close> has told its resource to end (the resource then plays its
  silence padding frames and ends). The moves the library makes by itself between
  Buffering, Playing and AutoPaused are not modelled.
\<close>

record audio_player =
  ap_status :: AudioPlayerStatus
  ap_stopping :: bool

text \<open>
  A voice connection of @discordjs/voice: the channel of its join configuration and
  whether the shared player is subscribed to it.
\<close>

record voice_connection =
  vc_channel :: string
  vc_player :: bool

text \<open>The options of \<^verbatim>\<open>new portAudio.AudioIO({inOptions: ...})\<close> and whether it was started.\<close>

record audio_io =
  channelCount :: nat
  sampleFormat :: nat
  sampleRate :: int
  deviceId :: int
  closeOnError :: bool
  started :: bool

text \<open>
  The state of the process. \<open>connections\<close> is the table of @discordjs/voice that
  \<^verbatim>\<open>getVoiceConnection(guildId)\<close> reads; \<open>player\<close> is the variable
  \<^verbatim>\<open>player\<close> of the ClientReady handler (\<open>None\<close> while undefined) with the
  player it holds; \<open>audio\<close> is the capture stream as
  \<^verbatim>\<open>createStream\<close> opened and started it (the program calls nothing else on it);
  \<open>listening\<close> says that the MessageCreate and SIGINT handlers are registered;
  \<open>exited\<close> is the code given to \<^verbatim>\<open>process.exit\<close>. The variable
  \<^verbatim>\<open>voiceConnection\<close> of the ClientReady handler is written by every call of
  \<^verbatim>\<open>voiceController\<close> before it is read, so it is a local of the model.
\<close>

record bot =
  connections :: "string \<rightharpoonup> voice_connection"
  player :: "audio_player option"
  audio :: "audio_io option"
  listening :: bool
  exited :: "nat option"
  trace :: "effect list"

text \<open>
  What the outside answers during one handler run: \<open>client_channels\<close> is
  \<^verbatim>\<open>client.channels.cache\<close>; \<open>join_result\<close> is the exception
  \<^verbatim>\<open>joinVoiceChannel\<close> throws, if any; \<open>send_result\<close> is the error the promise of
  \<^verbatim>\<open>channel.send\<close> rejects with, if any; \<open>open_result\<close> is the exception
  \<^verbatim>\<open>new portAudio.AudioIO\<close> throws, if any.
\<close>

record env =
  client_channels :: "channel list"
  join_result :: "error option"
  send_result :: "embed \<Rightarrow> error option"
  open_result :: "error option"

definition init :: bot where
  "init = \<lparr>connections = Map.empty, player = None, audio = None, listening = False,
           exited = None, trace = []\<rparr>"

section \<open>Library calls\<close>

definition emit :: "effect \<Rightarrow> bot \<Rightarrow> bot" where
  "emit e s = s\<lparr>trace := trace s @ [e]\<rparr>"

text \<open>\<^verbatim>\<open>await channel.send({embeds: [m]})\<close>: the send is attempted, and may reject.\<close>

definition channel_send :: "env \<Rightarrow> embed \<Rightarrow> bot \<Rightarrow> error option \<times> bot" where
  "channel_send e m s = (send_result e m, emit (ChannelSend m) s)"

text \<open>\<^verbatim>\<open>process.exit(code)\<close>.\<close>

definition process_exit :: "nat \<Rightarrow> bot \<Rightarrow> bot" where
  "process_exit code s = (emit (ProcessExit code) s)\<lparr>exited := Some code\<rparr>"

text \<open>\<^verbatim>\<open>Collection.get(id)\<close> on a cache keyed by channel id.\<close>

definition cache_get :: "channel list \<Rightarrow> string \<Rightarrow> channel option" where
  "cache_get cs i = find (\<lambda>c. ch_id c = i) cs"

text \<open>\<^verbatim>\<open>getVoiceConnection(guildId)\<close> of @discordjs/voice.\<close>

definition getVoiceConnection :: "string \<Rightarrow> bot \<Rightarrow> voice_connection option" where
  "getVoiceConnection gid s = connections s gid"

text \<open>
  \<^verbatim>\<open>joinVoiceChannel({channelId, guildId, adapterCreator})\<close> of @discordjs/voice: it
  throws what the outside decides, or returns the connection tracked for the guild; a
  connection that is already tracked is kept and sent to the new channel, a new one has
  no subscription yet. The result names the connection by its guild.
\<close>

definition joinVoiceChannel :: "env \<Rightarrow> string \<Rightarrow> string \<Rightarrow> bot \<Rightarrow> (error + string) \<times> bot" where
  "joinVoiceChannel e cid gid s =
     (let s1 = emit (JoinVoiceChannel cid gid) s in
      case join_result e of
        Some err \<Rightarrow> (Inl err, s1)
      | None \<Rightarrow>
          (Inr gid,
           s1\<lparr>connections := (connections s1)(gid \<mapsto>
                 (case connections s1 gid of
                    None \<Rightarrow> \<lparr>vc_channel = cid, vc_player = False\<rparr>
                  | Some c \<Rightarrow> c\<lparr>vc_channel := cid\<rparr>))\<rparr>))"

text \<open>
  \<^verbatim>\<open>connection.subscribe(player)\<close>: the library calls a method of the player, which
  throws a TypeError while \<^verbatim>\<open>player\<close> is undefined.
\<close>

definition subscribe :: "string \<Rightarrow> bot \<Rightarrow> error option \<times> bot" where
  "subscribe gid s =
     (case player s of
        None \<Rightarrow> (Some (cannot_read ''subscribe''), s)
      | Some p \<Rightarrow>
          (None,
           (emit (Subscribe gid) s)\<lparr>connections :=
              (case connections s gid of
                 None \<Rightarrow> connections s
               | Some c \<Rightarrow> (connections s)(gid \<mapsto> c\<lparr>vc_player := True\<rparr>))\<rparr>))"

text \<open>
  \<^verbatim>\<open>AudioPlayer.stop()\<close> of @discordjs/voice, called without \<^verbatim>\<open>force\<close> on a
  resource with silence padding frames: an Idle player is left as it is; any other keeps
  its status, and its resource is told to end after the padding frames.
\<close>

definition AudioPlayer_stop :: "audio_player \<Rightarrow> audio_player" where
  "AudioPlayer_stop p = (if ap_status p = Idle then p else p\<lparr>ap_stopping := True\<rparr>)"

text \<open>\<^verbatim>\<open>player.stop()\<close> in index.js: a TypeError while \<^verbatim>\<open>player\<close> is undefined.\<close>

definition player_stop :: "bot \<Rightarrow> error option \<times> bot" where
  "player_stop s =
     (case player s of
        None \<Rightarrow> (Some (cannot_read ''stop''), s)
      | Some p \<Rightarrow> (None, (emit PlayerStop s)\<lparr>player := Some (AudioPlayer_stop p)\<rparr>))"

text \<open>
  \<^verbatim>\<open>voiceConnection.destroy()\<close> of @discordjs/voice: the connection is no longer
  tracked, and its subscription ends with it.
\<close>

definition connection_destroy :: "string \<Rightarrow> bot \<Rightarrow> bot" where
  "connection_destroy gid s =
     (emit (ConnectionDestroy gid) s)\<lparr>connections := (connections s)(gid := None)\<rparr>"

section \<open>stream.js\<close>

text \<open>
  \<^verbatim>\<open>createStream(client, device)\<close>. The device is \<open>None\<close> when
  \<^verbatim>\<open>getDevices().find\<close> found none. The result is the exception thrown, or the
  player returned: \<^verbatim>\<open>player.play(resource)\<close> has left it Buffering, and the two
  listeners below are registered on it.
\<close>

definition createStream :: "env \<Rightarrow> device option \<Rightarrow> bot \<Rightarrow> (error + audio_player) \<times> bot" where
  "createStream e dev s =
     (case dev of
        None \<Rightarrow> (Inl (cannot_read ''defaultSampleRate''), s)
      | Some d \<Rightarrow>
          if defaultSampleRate d \<noteq> 48000
          then (Inl (Error (dev_name d @ '' is not a supported audio device ...'')), s)
          else
            (let s1 = emit (OpenAudioIO (dev_id d)) (emit CreateAudioPlayer s) in
             case open_result e of
               Some err \<Rightarrow> (Inl err, s1)
             | None \<Rightarrow>
                 (Inr \<lparr>ap_status = Buffering, ap_stopping = False\<rparr>,
                  (emit (PlayerOn ''error'')
                     (emit (PlayerOn ''idle'') (emit AudioStart (emit PlayerPlay s1))))
                  \<lparr>audio :=
                     Some \<lparr>channelCount = 2, sampleFormat = 16, sampleRate = 48000,
                           deviceId = dev_id d, closeOnError = False, started = True\<rparr>\<rparr>)))"

text \<open>
  The listener of the Idle event, \<^verbatim>\<open>() => connection.destroy()\<close> (stream.js 52): no
  scope of stream.js declares \<^verbatim>\<open>connection\<close>, so reading it throws.
\<close>

definition idle_listener :: "bot \<Rightarrow> error option \<times> bot" where
  "idle_listener s = (Some (ReferenceError ''connection is not defined''), s)"

text \<open>
  The listener of the error event, \<^verbatim>\<open>error => console.error(error)\<close> (stream.js 53);
  the error is printed as its message.
\<close>

definition error_listener :: "error \<Rightarrow> bot \<Rightarrow> error option \<times> bot" where
  "error_listener err s = (None, emit (ConsoleError (message_of err)) s)"

text \<open>
  The audio cycle of @discordjs/voice in which the resource, told to end, has played its
  last silence padding frame to the connection of the guild \<open>gid\<close>, subscribed and
  ready: the player becomes Idle and the Idle listener runs, in a timer of the library
  where nothing catches what it throws. A stopped player reaches Idle in no other way;
  the cycles that play audio are not modelled.
\<close>

definition audio_cycle :: "string \<Rightarrow> bot \<Rightarrow> error option \<times> bot" where
  "audio_cycle gid s =
     (case player s of
        None \<Rightarrow> (None, s)
      | Some p \<Rightarrow>
          (case connections s gid of
             None \<Rightarrow> (None, s)
           | Some c \<Rightarrow>
               if vc_player c \<and> ap_stopping p \<and> ap_status p \<noteq> Idle
               then idle_listener (s\<lparr>player := Some (p\<lparr>ap_status := Idle\<rparr>)\<rparr>)
               else (None, s)))"

section \<open>index.js\<close>

text \<open>A template literal prints \<^verbatim>\<open>null\<close> for a null channel id.\<close>

definition show_id :: "string option \<Rightarrow> string" where
  "show_id i = (case i of None \<Rightarrow> ''null'' | Some x \<Rightarrow> x)"

text \<open>
  \<^verbatim>\<open>message.replace(/\\.$/, '')\<close>: the pattern is a backslash, then one character that
  is no line terminator, then the end of the input.
\<close>

definition replace_tail :: "string \<Rightarrow> string" where
  "replace_tail m =
     (case rev m of
        c # b # r \<Rightarrow>
          if b = CHR 0x5C \<and> c \<noteq> CHR 0x0A \<and> c \<noteq> CHR 0x0D then rev r else m
      | _ \<Rightarrow> m)"

text \<open>\<^verbatim>\<open>getVoiceChannelByName(channel, channelName)\<close>: \<^verbatim>\<open>Collection.find\<close> returns the first match.\<close>

definition getVoiceChannelByName :: "guild \<Rightarrow> string \<Rightarrow> channel option" where
  "getVoiceChannelByName g channelName =
     find (\<lambda>c. ch_type c = GuildVoice \<and> ch_name c = channelName) (guild_channels g)"

text \<open>The catch block of the play branch.\<close>

definition play_catch :: "env \<Rightarrow> string option \<Rightarrow> error \<Rightarrow> bot \<Rightarrow> error option \<times> bot" where
  "play_catch e channelId err s =
     channel_send e
       (messageEmbedTemplate ''Error''
          (''Cannot connect to voice channel ('' @ show_id channelId
           @ ''). Check logs for more details.''))
       (emit (ConsoleError (replace_tail (message_of err) @ '' ...'')) s)"

text \<open>The try block of the play branch.\<close>

definition play_try :: "env \<Rightarrow> channel option \<Rightarrow> string option \<Rightarrow> bot \<Rightarrow> error option \<times> bot" where
  "play_try e voiceChannel channelId s =
     (case voiceChannel of
        None \<Rightarrow> (Some (cannot_read ''id''), s)
      | Some vc \<Rightarrow>
          (case joinVoiceChannel e (ch_id vc) (ch_guild vc) s of
             (Inl err, s1) \<Rightarrow> (Some err, s1)
           | (Inr conn, s1) \<Rightarrow>
               (case subscribe conn
                       (emit (ConsoleLog (''Connected to voice channel ('' @ show_id channelId
                                          @ '') ...'')) s1) of
                  (Some err, s2) \<Rightarrow> (Some err, s2)
                | (None, s2) \<Rightarrow>
                    channel_send e
                      (messageEmbedTemplate ''Connected''
                         (''Now connected and streaming audio to <#'' @ show_id channelId @ ''>''))
                      s2)))"

text \<open>The stop branch.\<close>

definition stop_branch :: "env \<Rightarrow> guild \<Rightarrow> bot \<Rightarrow> error option \<times> bot" where
  "stop_branch e g s =
     (case getVoiceConnection (guild_id g) s of
        Some voiceConnection \<Rightarrow>
          (case player_stop s of
             (Some err, s1) \<Rightarrow> (Some err, s1)
           | (None, s1) \<Rightarrow>
               (let s2 = connection_destroy (guild_id g) s1 in
                case me_voice g of
                  None \<Rightarrow> (Some (cannot_read ''id''), s2)
                | Some connectedTo \<Rightarrow>
                    channel_send e
                      (messageEmbedTemplate ''Disconnected''
                         (''Now disconnected from <#'' @ connectedTo @ ''>''))
                      (emit (ConsoleLog (''Disconnected from voice channel ('' @ connectedTo
                                         @ '') ...'')) s2)))
      | None \<Rightarrow>
          channel_send e
            (messageEmbedTemplate ''Error''
               ''Cannot disconnect from voice channel. Check logs for more details.'')
            (emit (ConsoleLog ''Not connected to any voice channel ...'') s))"

text \<open>
  \<^verbatim>\<open>voiceController(action, guild, channel, channelId = null)\<close>. The result is the
  error its promise rejects with, if any, and the state it leaves.
\<close>

definition voiceController :: "env \<Rightarrow> string \<Rightarrow> guild \<Rightarrow> string option \<Rightarrow> bot \<Rightarrow> error option \<times> bot" where
  "voiceController e action g channelId s =
     (let voiceChannel =
            (case channelId of None \<Rightarrow> None | Some i \<Rightarrow> cache_get (client_channels e) i)
      in
      if (case voiceChannel of
            None \<Rightarrow> action \<noteq> ''stop''
          | Some vc \<Rightarrow> ch_type vc \<noteq> GuildVoice)
      then
        channel_send e
          (messageEmbedTemplate ''Error''
             (''The voice channel ('' @ show_id channelId @ '') is invalid or does not exist.''))
          (emit (ConsoleError (''The voice channel ('' @ show_id channelId
                               @ '') is invalid or does not exist ...'')) s)
      else if action = ''play'' then
        (case play_try e voiceChannel channelId s of
           (Some err, s1) \<Rightarrow> play_catch e channelId err s1
         | (None, s1) \<Rightarrow> (None, s1))
      else if action = ''stop'' then stop_branch e g s
      else (None, s))"

text \<open>\<^verbatim>\<open>content.split(' ')\<close> and the elements an array destructuring reads.\<close>

fun js_split :: "string \<Rightarrow> string list" where
  "js_split [] = [[]]"
| "js_split (c # cs) =
     (if c = CHR '' '' then [] # js_split cs
      else (case js_split cs of [] \<Rightarrow> [[c]] | w # ws \<Rightarrow> (c # w) # ws))"

definition element :: "string list \<Rightarrow> nat \<Rightarrow> string option" where
  "element xs n = (if n < length xs then Some (xs ! n) else None)"

text \<open>A string is falsy when it is undefined or empty.\<close>

definition falsy :: "string option \<Rightarrow> bool" where
  "falsy x = (case x of None \<Rightarrow> True | Some v \<Rightarrow> v = [])"

text \<open>\<^verbatim>\<open>channelId.match(/^\d{18}$/g)\<close>: exactly \<open>n\<close> decimal digits, then the end of the input.\<close>

definition is_digit :: "char \<Rightarrow> bool" where
  "is_digit c = (c \<in> set ''0123456789'')"

fun digits :: "nat \<Rightarrow> string \<Rightarrow> bool" where
  "digits 0 s = (s = [])"
| "digits (Suc n) [] = False"
| "digits (Suc n) (c # cs) = (is_digit c \<and> digits n cs)"

definition match_id :: "string \<Rightarrow> bool" where
  "match_id s = digits 18 s"

text \<open>
  The value of \<^verbatim>\<open>joinChannelId\<close> in the play command: the target itself when it
  matches the pattern, else the id of the voice channel of that name; reading
  \<^verbatim>\<open>.id\<close> of no channel throws.
\<close>

definition joinChannelId :: "guild \<Rightarrow> string \<Rightarrow> error + string" where
  "joinChannelId g channelId =
     (if match_id channelId then Inr channelId
      else (case getVoiceChannelByName g channelId of
              None \<Rightarrow> Inl (cannot_read ''id'')
            | Some c \<Rightarrow> Inr (ch_id c)))"

text \<open>\<^verbatim>\<open>Array.join(sep)\<close>.\<close>

fun js_join :: "string \<Rightarrow> string list \<Rightarrow> string" where
  "js_join sep [] = []"
| "js_join sep [x] = x"
| "js_join sep (x # y # ys) = x @ sep @ js_join sep (y # ys)"

definition help_menu :: "string \<Rightarrow> string" where
  "help_menu u =
     js_join [CHR 0x0A, CHR 0x0A]
       [[CHR 0x60] @ ''@'' @ u @ '' help'' @ [CHR 0x60, CHR 0x0A]
          @ ''Display the help menu (this list)'',
        [CHR 0x60] @ ''@'' @ u @ '' list'' @ [CHR 0x60, CHR 0x0A]
          @ ''See a list of available voice channels'',
        [CHR 0x60] @ ''@'' @ u @ '' play <channel id>'' @ [CHR 0x60, CHR 0x0A]
          @ ''Join channel and start playing audio'',
        [CHR 0x60] @ ''@'' @ u @ '' stop'' @ [CHR 0x60, CHR 0x0A]
          @ ''Stop playing audio and leave channel'']"

text \<open>The arrow of the channel list is the three bytes of its UTF-8 encoding.\<close>

definition channel_list :: "string \<Rightarrow> channel list \<Rightarrow> string" where
  "channel_list username voiceChannels =
     js_join [CHR 0x0A]
       ((''Use the channel name or ID below with the '' @ [CHR 0x60] @ ''join'' @ [CHR 0x60]
         @ '', '' @ [CHR 0x60] @ ''play'' @ [CHR 0x60] @ '', '' @ [CHR 0x60] @ ''stop''
         @ [CHR 0x60] @ '' commands. Please make sure these channels are viewable by ''
         @ username @ ''.'' @ [CHR 0x0A])
        # map (\<lambda>c. ch_name c @ '' '' @ [CHR 0xE2, CHR 0x9E, CHR 0x9C] @ '' '' @ [CHR 0x60]
                    @ ch_id c @ [CHR 0x60]) voiceChannels)"

text \<open>Two statements in sequence: the second runs when the first did not throw.\<close>

definition and_then :: "error option \<times> bot \<Rightarrow> (bot \<Rightarrow> error option \<times> bot) \<Rightarrow> error option \<times> bot" where
  "and_then r f = (case r of (Some err, s) \<Rightarrow> (Some err, s) | (None, s) \<Rightarrow> f s)"

definition help_command :: "env \<Rightarrow> string \<Rightarrow> string option \<Rightarrow> bot \<Rightarrow> error option \<times> bot" where
  "help_command e mentionedUsername command s =
     (if falsy command \<or> command = Some ''help''
      then channel_send e (messageEmbedTemplate ''Command Help Menu'' (help_menu mentionedUsername))
             (emit (ConsoleLog ''Displaying command help menu ...'') s)
      else (None, s))"

definition list_command :: "env \<Rightarrow> guild \<Rightarrow> string \<Rightarrow> string option \<Rightarrow> bot \<Rightarrow> error option \<times> bot" where
  "list_command e g username command s =
     (if command = Some ''list''
      then channel_send e
             (messageEmbedTemplate ''Voice Channels List''
                (channel_list username (filter (\<lambda>c. ch_type c = GuildVoice) (guild_channels g))))
             (emit (ConsoleLog ''Displaying voice channel list ...'') s)
      else (None, s))"

definition play_command :: "env \<Rightarrow> guild \<Rightarrow> string option \<Rightarrow> string option \<Rightarrow> bot \<Rightarrow> error option \<times> bot" where
  "play_command e g command channelId s =
     (if command = Some ''play'' \<and> \<not> falsy channelId
      then
        (let s1 = emit (ConsoleLog (''Connecting to voice channel ('' @ show_id channelId
                                    @ '') ...'')) s in
         case joinChannelId g (show_id channelId) of
           Inl err \<Rightarrow> (Some err, s1)
         | Inr i \<Rightarrow> voiceController e ''play'' g (Some i) s1)
      else (None, s))"

definition stop_command :: "env \<Rightarrow> guild \<Rightarrow> string option \<Rightarrow> bot \<Rightarrow> error option \<times> bot" where
  "stop_command e g command s =
     (if command = Some ''stop''
      then voiceController e ''stop'' g None
             (emit (ConsoleLog ''Disconnecting from voice channel ...'') s)
      else (None, s))"

text \<open>
  The MessageCreate handler. The result is the error its promise rejects with, if any:
  nothing catches it. The four commands are four \<^verbatim>\<open>if\<close> statements in sequence.
  \<^verbatim>\<open>split\<close> returns at least one element, so \<^verbatim>\<open>username\<close> is a string; in
  the play command \<^verbatim>\<open>channelId\<close> is truthy, so \<open>show_id channelId\<close> is that string.
\<close>

definition messageCreate :: "env \<Rightarrow> message \<Rightarrow> bot \<Rightarrow> error option \<times> bot" where
  "messageCreate e m s =
     (let parts = js_split (content m);
          username = show_id (element parts 0);
          command = element parts 1;
          channelId = element parts 2;
          g = msg_guild m
      in
      case mentioned m of
        None \<Rightarrow> (None, s)
      | Some mentionedUsername \<Rightarrow>
          and_then
            (and_then
               (and_then (help_command e mentionedUsername command s)
                  (list_command e g username command))
               (play_command e g command channelId))
            (stop_command e g command))"

text \<open>The loop of the SIGINT handler over \<^verbatim>\<open>client.guilds.cache\<close>.\<close>

fun leave_guilds :: "guild list \<Rightarrow> bot \<Rightarrow> bot" where
  "leave_guilds [] s = s"
| "leave_guilds (g # gs) s =
     leave_guilds gs
       (case getVoiceConnection (guild_id g) s of
          None \<Rightarrow> s
        | Some voiceConnection \<Rightarrow>
            emit (ConsoleLog (''Left voice channel in guild: '' @ guild_name g))
              (connection_destroy (guild_id g) s))"

text \<open>The SIGINT handler, given \<^verbatim>\<open>client.guilds.cache\<close>.\<close>

definition sigint :: "guild list \<Rightarrow> bot \<Rightarrow> bot" where
  "sigint guilds s =
     process_exit 130
       (emit (ConsoleLog ''Stopping server ...'')
          (emit ClientDestroy
             (emit (ConsoleLog ''Disconnecting from Discord'')
                (leave_guilds guilds
                   (emit (ConsoleLog ''Leaving voice channels'')
                      (emit (SetStatus ''invisible'')
                         (emit (ConsoleLog ''Setting status to invisible'') s)))))))"

text \<open>
  The ClientReady handler: it creates the stream, and registers the MessageCreate and
  SIGINT handlers only when that did not throw.
\<close>

definition clientReady :: "env \<Rightarrow> device option \<Rightarrow> bot \<Rightarrow> bot" where
  "clientReady e dev s =
     (case createStream e dev (emit (ConsoleLog ''Server is ready ...'') s) of
        (Inl err, s1) \<Rightarrow>
          process_exit 0 (emit (ConsoleError (message_of err)) (emit (SetStatus ''invisible'') s1))
      | (Inr p, s1) \<Rightarrow>
          (emit (SetStatus ''online'') s1)\<lparr>player := Some p, listening := True\<rparr>)"

section \<open>Predicates and concrete inputs of the theorems\<close>

text \<open>The effects of the loop of the SIGINT handler: a connection destroyed, or a line logged.\<close>

fun leaving :: "effect \<Rightarrow> bool" where
  "leaving (ConnectionDestroy g) = True"
| "leaving (ConsoleLog m) = True"
| "leaving x = False"

text \<open>
  A guild \<open>G1\<close> with two voice channels and a text channel, a guild \<open>G2\<close> with one
  voice channel, an outside where nothing fails, and a device.
\<close>

definition ex_channels :: "channel list" where
  "ex_channels =
     [\<lparr>ch_id = ''123456789012345678'', ch_name = ''Lounge'', ch_type = GuildVoice,
       ch_guild = ''G1''\<rparr>,
      \<lparr>ch_id = ''223456789012345678'', ch_name = ''Music'', ch_type = GuildVoice,
       ch_guild = ''G1''\<rparr>,
      \<lparr>ch_id = ''323456789012345678'', ch_name = ''general'', ch_type = GuildText,
       ch_guild = ''G1''\<rparr>]"

definition ex_env :: env where
  "ex_env = \<lparr>client_channels = ex_channels, join_result = None, send_result = (\<lambda>m. None),
             open_result = None\<rparr>"

definition ex_guild :: "string option \<Rightarrow> guild" where
  "ex_guild v =
     \<lparr>guild_id = ''G1'', guild_name = ''Home'', guild_channels = ex_channels, me_voice = v\<rparr>"

definition ex_message :: "string \<Rightarrow> string option \<Rightarrow> message" where
  "ex_message txt v = \<lparr>content = txt, mentioned = Some ''bot'', msg_guild = ex_guild v\<rparr>"

definition ex_device :: "int \<Rightarrow> device" where
  "ex_device rate =
     \<lparr>dev_id = 1, dev_name = ''Mic'', maxInputChannels = 2, defaultSampleRate = rate\<rparr>"

text \<open>A device of 48000 Hz with eight input channels.\<close>

definition ex_mixer :: device where
  "ex_mixer =
     \<lparr>dev_id = 2, dev_name = ''Mixer'', maxInputChannels = 8, defaultSampleRate = 48000\<rparr>"

definition ex_guild2 :: guild where
  "ex_guild2 =
     \<lparr>guild_id = ''G2'', guild_name = ''Work'',
      guild_channels =
        [\<lparr>ch_id = ''423456789012345678'', ch_name = ''Stage'', ch_type = GuildVoice,
          ch_guild = ''G2''\<rparr>],
      me_voice = None\<rparr>"

definition ex_env2 :: env where
  "ex_env2 = ex_env\<lparr>client_channels := ex_channels @ guild_channels ex_guild2\<rparr>"

text \<open>The process after a start with a 48000 Hz device.\<close>

definition ex_ready :: bot where
  "ex_ready = clientReady ex_env (Some (ex_device 48000)) init"

text \<open>Then after \<^verbatim>\<open>@bot play 123456789012345678\<close> in \<open>G1\<close>.\<close>

definition ex_playing :: bot where
  "ex_playing =
     snd (messageCreate ex_env (ex_message ''@bot play 123456789012345678'' None) ex_ready)"

text \<open>Then after \<^verbatim>\<open>@bot play Stage\<close> in \<open>G2\<close>.\<close>

definition ex_two :: bot where
  "ex_two =
     snd (messageCreate ex_env2
            \<lparr>content = ''@bot play Stage'', mentioned = Some ''bot'', msg_guild = ex_guild2\<rparr>
            ex_playing)"

section \<open>Evaluation of the concrete inputs\<close>

lemmas ex_defs = ex_channels_def ex_env_def ex_guild_def ex_message_def ex_device_def

lemmas lib_defs = emit_def channel_send_def process_exit_def cache_get_def
  getVoiceConnection_def joinVoiceChannel_def subscribe_def player_stop_def
  connection_destroy_def

lemmas ctl_defs = voiceController_def play_try_def play_catch_def stop_branch_def show_id_def
  messageEmbedTemplate_def

lemmas msg_defs = messageCreate_def and_then_def help_command_def list_command_def
  play_command_def stop_command_def joinChannelId_def getVoiceChannelByName_def match_id_def
  is_digit_def element_def falsy_def

lemma digits_iff: "digits n s \<longleftrightarrow> length s = n \<and> list_all is_digit s"
proof (induction n arbitrary: s)
  case 0
  then show ?case by auto
next
  case (Suc n)
  then show ?case by (cases s) auto
qed

lemma find_filter: "find P xs = (case filter P xs of [] \<Rightarrow> None | x # _ \<Rightarrow> Some x)"
  by (induction xs) auto

lemma cache_get_id: "cache_get cs t = Some vc \<Longrightarrow> ch_id vc = t"
  by (auto simp: cache_get_def find_Some_iff)

lemma ex_ready_eq:
  "ex_ready =
     \<lparr>connections = Map.empty,
      player = Some \<lparr>ap_status = Buffering, ap_stopping = False\<rparr>,
      audio = Some \<lparr>channelCount = 2, sampleFormat = 16, sampleRate = 48000, deviceId = 1,
                    closeOnError = False, started = True\<rparr>,
      listening = True, exited = None,
      trace = [ConsoleLog ''Server is ready ...'', CreateAudioPlayer, OpenAudioIO 1, PlayerPlay,
               AudioStart, PlayerOn ''idle'', PlayerOn ''error'', SetStatus ''online'']\<rparr>"
  by (simp add: ex_ready_def clientReady_def createStream_def init_def ex_defs lib_defs)

lemma ex_playing_eq:
  "ex_playing =
     ex_ready\<lparr>connections :=
                [''G1'' \<mapsto> \<lparr>vc_channel = ''123456789012345678'', vc_player = True\<rparr>],
              trace := trace ex_ready @
                [ConsoleLog ''Connecting to voice channel (123456789012345678) ...'',
                 JoinVoiceChannel ''123456789012345678'' ''G1'',
                 ConsoleLog ''Connected to voice channel (123456789012345678) ...'',
                 Subscribe ''G1'',
                 ChannelSend (messageEmbedTemplate ''Connected''
                   ''Now connected and streaming audio to <#123456789012345678>'')]\<rparr>"
  by (simp add: ex_playing_def ex_ready_eq msg_defs digits_iff Let_def ex_defs lib_defs ctl_defs)

lemma ex_two_eq:
  "ex_two =
     ex_playing\<lparr>connections := (connections ex_playing)
                  (''G2'' \<mapsto> \<lparr>vc_channel = ''423456789012345678'', vc_player = True\<rparr>),
                trace := trace ex_playing @
                  [ConsoleLog ''Connecting to voice channel (Stage) ...'',
                   JoinVoiceChannel ''423456789012345678'' ''G2'',
                   ConsoleLog ''Connected to voice channel (423456789012345678) ...'',
                   Subscribe ''G2'',
                   ChannelSend (messageEmbedTemplate ''Connected''
                     ''Now connected and streaming audio to <#423456789012345678>'')]\<rparr>"
  by (simp add: ex_two_def ex_env2_def ex_guild2_def ex_playing_eq ex_ready_eq msg_defs
      digits_iff Let_def ex_defs lib_defs ctl_defs)

section \<open>The controller on a valid target, and after a stop\<close>

text \<open>
  A play command to a voice channel of the client's cache joins it, whatever the state:
  the branch reads no session.
\<close>

lemma play_valid_target:
  assumes "cache_get (client_channels e) t = Some vc"
    and "ch_type vc = GuildVoice"
    and "join_result e = None"
    and "player s = Some p"
    and "send_result e (messageEmbedTemplate ''Connected''
           (''Now connected and streaming audio to <#'' @ t @ ''>'')) = None"
  shows "voiceController e ''play'' g (Some t) s =
    (None,
     s\<lparr>connections := (connections s)(ch_guild vc \<mapsto> \<lparr>vc_channel = t, vc_player = True\<rparr>),
       trace := trace s @
         [JoinVoiceChannel t (ch_guild vc),
          ConsoleLog (''Connected to voice channel ('' @ t @ '') ...''),
          Subscribe (ch_guild vc),
          ChannelSend (messageEmbedTemplate ''Connected''
            (''Now connected and streaming audio to <#'' @ t @ ''>''))]\<rparr>)"
proof -
  have i: "ch_id vc = t"
    using assms(1) by (rule cache_get_id)
  show ?thesis
  proof (cases "connections s (ch_guild vc)")
    case None
    then show ?thesis
      using assms i by (simp add: ctl_defs lib_defs)
  next
    case (Some c0)
    then show ?thesis
      using assms i by (cases c0) (simp add: ctl_defs lib_defs)
  qed
qed

lemma stop_state:
  assumes "player s = Some p"
  shows "connections (snd (voiceController e ''stop'' g None s)) (guild_id g) = None"
  using assms by (auto simp: ctl_defs lib_defs Let_def split: option.splits)

section \<open>The loop of the SIGINT handler\<close>

lemma leave_guilds_frame:
  "player (leave_guilds gs s) = player s \<and> audio (leave_guilds gs s) = audio s
   \<and> listening (leave_guilds gs s) = listening s \<and> exited (leave_guilds gs s) = exited s"
  by (induction gs arbitrary: s) (auto simp: lib_defs split: option.splits)

lemma leave_guilds_connections:
  "connections (leave_guilds gs s) gid =
     (if gid \<in> guild_id ` set gs then None else connections s gid)"
  by (induction gs arbitrary: s) (auto simp: lib_defs split: option.splits)

lemma leave_guilds_trace:
  "\<exists>mid. trace (leave_guilds gs s) = trace s @ mid \<and> list_all leaving mid
     \<and> (\<forall>gid. gid \<in> guild_id ` set gs \<and> connections s gid \<noteq> None
            \<longrightarrow> ConnectionDestroy gid \<in> set mid)"
proof (induction gs arbitrary: s)
  case Nil
  then show ?case by simp
next
  case (Cons g gs)
  show ?case
  proof (cases "connections s (guild_id g)")
    case None
    obtain mid where m: "trace (leave_guilds gs s) = trace s @ mid" "list_all leaving mid"
      "\<forall>gid. gid \<in> guild_id ` set gs \<and> connections s gid \<noteq> None
         \<longrightarrow> ConnectionDestroy gid \<in> set mid"
      using Cons.IH [of s] by blast
    show ?thesis
      using None m by (intro exI [of _ mid]) (auto simp: getVoiceConnection_def)
  next
    case (Some c)
    let ?s1 = "emit (ConsoleLog (''Left voice channel in guild: '' @ guild_name g))
                 (connection_destroy (guild_id g) s)"
    obtain mid where m: "trace (leave_guilds gs ?s1) = trace ?s1 @ mid" "list_all leaving mid"
      "\<forall>gid. gid \<in> guild_id ` set gs \<and> connections ?s1 gid \<noteq> None
         \<longrightarrow> ConnectionDestroy gid \<in> set mid"
      using Cons.IH [of ?s1] by blast
    have t1: "trace ?s1 = trace s @
        [ConnectionDestroy (guild_id g),
         ConsoleLog (''Left voice channel in guild: '' @ guild_name g)]"
      by (simp add: lib_defs)
    have c1: "connections ?s1 gid = (if gid = guild_id g then None else connections s gid)"
      for gid
      by (simp add: lib_defs)
    show ?thesis
      using Some m t1 c1
      by (intro exI [of _ "[ConnectionDestroy (guild_id g),
              ConsoleLog (''Left voice channel in guild: '' @ guild_name g)] @ mid"])
         (auto simp: getVoiceConnection_def)
  qed
qed

section \<open>The claims\<close>

subsection \<open>C1: play while a session exists\<close>

text \<open>
  C1 says that a play command fails with AlreadyConnected when the guild has a session,
  and leaves the session as it is. The play branch never reads the session of the guild:
  as amended, when the guild has a session and the target is a voice channel of that guild
  in the client's cache, and neither the join nor the send fails, the controller joins the
  target, subscribes the player, reports Connected for the target, and the guild's
  connection is now to the target.
\<close>

theorem play_while_connected:
  assumes "connections s (guild_id g) = Some c0"
    and "cache_get (client_channels e) t = Some vc"
    and "ch_type vc = GuildVoice"
    and "ch_guild vc = guild_id g"
    and "join_result e = None"
    and "player s = Some p"
    and "send_result e (messageEmbedTemplate ''Connected''
           (''Now connected and streaming audio to <#'' @ t @ ''>'')) = None"
  shows "voiceController e ''play'' g (Some t) s =
    (None,
     s\<lparr>connections := (connections s)(guild_id g \<mapsto> \<lparr>vc_channel = t, vc_player = True\<rparr>),
       trace := trace s @
         [JoinVoiceChannel t (guild_id g),
          ConsoleLog (''Connected to voice channel ('' @ t @ '') ...''),
          Subscribe (guild_id g),
          ChannelSend (messageEmbedTemplate ''Connected''
            (''Now connected and streaming audio to <#'' @ t @ ''>''))]\<rparr>)"
  using play_valid_target [OF assms(2) assms(3) assms(5) assms(6) assms(7), of g] assms(4)
  by simp

theorem play_while_connected_witness:
  "voiceController ex_env ''play'' (ex_guild (Some ''123456789012345678''))
     (Some ''223456789012345678'') ex_playing =
    (None,
     ex_playing\<lparr>connections :=
                  [''G1'' \<mapsto> \<lparr>vc_channel = ''223456789012345678'', vc_player = True\<rparr>],
                trace := trace ex_playing @
                  [JoinVoiceChannel ''223456789012345678'' ''G1'',
                   ConsoleLog ''Connected to voice channel (223456789012345678) ...'',
                   Subscribe ''G1'',
                   ChannelSend (messageEmbedTemplate ''Connected''
                     ''Now connected and streaming audio to <#223456789012345678>'')]\<rparr>)"
  using play_while_connected [of ex_playing "ex_guild (Some ''123456789012345678'')"
      "\<lparr>vc_channel = ''123456789012345678'', vc_player = True\<rparr>" ex_env
      "''223456789012345678''"
      "\<lparr>ch_id = ''223456789012345678'', ch_name = ''Music'', ch_type = GuildVoice,
        ch_guild = ''G1''\<rparr>"
      "\<lparr>ap_status = Buffering, ap_stopping = False\<rparr>"]
  by (simp add: ex_playing_eq ex_ready_eq ex_defs cache_get_def)

text \<open>
  With \<open>G1\<close> connected to the channel Lounge, a play command to the channel Music
  does not fail: Connected is reported and the connection of \<open>G1\<close> is to Music.
\<close>

theorem play_while_connected_counterexample:
  "connections ex_playing ''G1''
     = Some \<lparr>vc_channel = ''123456789012345678'', vc_player = True\<rparr>
   \<and> fst (voiceController ex_env ''play'' (ex_guild (Some ''123456789012345678''))
            (Some ''223456789012345678'') ex_playing) = None
   \<and> connections (snd (voiceController ex_env ''play'' (ex_guild (Some ''123456789012345678''))
                          (Some ''223456789012345678'') ex_playing)) ''G1''
       = Some \<lparr>vc_channel = ''223456789012345678'', vc_player = True\<rparr>
   \<and> last (trace (snd (voiceController ex_env ''play'' (ex_guild (Some ''123456789012345678''))
                          (Some ''223456789012345678'') ex_playing)))
       = ChannelSend (messageEmbedTemplate ''Connected''
           ''Now connected and streaming audio to <#223456789012345678>'')"
  by (simp add: ex_playing_eq ex_ready_eq ex_defs lib_defs ctl_defs)

subsection \<open>C2: a name that resolves to no voice channel\<close>

text \<open>
  C2 says that a play command whose name matches no voice channel (or matches a channel
  that is no voice channel) yields the InvalidTarget outcome. The handler reads
  \<^verbatim>\<open>.id\<close> of the channel that was not found: for the name of a text channel and
  for a name of no channel, the handler rejects with a TypeError after logging one line; it
  sends no message, and \<^verbatim>\<open>voiceController\<close> is not called.
\<close>

theorem play_unknown_name:
  "messageCreate ex_env (ex_message ''@bot play general'' None) ex_ready
     = (Some (cannot_read ''id''),
        emit (ConsoleLog ''Connecting to voice channel (general) ...'') ex_ready)
   \<and> messageCreate ex_env (ex_message ''@bot play nowhere'' None) ex_ready
     = (Some (cannot_read ''id''),
        emit (ConsoleLog ''Connecting to voice channel (nowhere) ...'') ex_ready)"
  by (simp add: msg_defs digits_iff show_id_def Let_def ex_defs)

subsection \<open>C3: failures that leave the command handler\<close>

text \<open>
  C3 says that no failure of a play or stop command leaves the handler uncaught. Only the
  join, the subscription and the send of the play branch are inside a try block: the
  handler rejects on a play command with an unknown name, on a stop command while the
  voice channel of the bot is not cached, and on a stop command whose message cannot be
  sent.
\<close>

theorem handler_rejects:
  "fst (messageCreate ex_env (ex_message ''@bot play general'' None) ex_ready)
     = Some (cannot_read ''id'')
   \<and> fst (messageCreate ex_env (ex_message ''@bot stop'' None) ex_playing)
     = Some (cannot_read ''id'')
   \<and> fst (messageCreate (ex_env\<lparr>send_result := \<lambda>m. Some (Error ''Missing Permissions'')\<rparr>)
            (ex_message ''@bot stop'' None) ex_ready)
     = Some (Error ''Missing Permissions'')"
  by (simp add: msg_defs digits_iff ex_playing_eq ex_ready_eq Let_def ex_defs ctl_defs lib_defs)

subsection \<open>C4: stop while a session exists\<close>




subsection \<open>C5: a device of another format at startup\<close>

text \<open>
  C5 says that a device descriptor that violates the format (48000 Hz, 2 channels, 16 bit)
  ends the process at startup with a non-zero exit code. \<^verbatim>\<open>createStream\<close> reads the
  sample rate of the descriptor only, and the handler passes 0 to \<^verbatim>\<open>process.exit\<close>:
  as amended, when the default sample rate of the device is not 48000 the process exits in
  the ClientReady handler with the exit code 0, before the command handlers are
  registered, with no player and no capture stream; a device of 48000 Hz that can be
  opened starts the bot, whatever the other fields of its descriptor.
\<close>

theorem clientReady_unsupported_rate:
  "(defaultSampleRate d \<noteq> 48000 \<longrightarrow>
      clientReady e (Some d) s =
        s\<lparr>exited := Some 0,
          trace := trace s @
            [ConsoleLog ''Server is ready ...'', SetStatus ''invisible'',
             ConsoleError (dev_name d @ '' is not a supported audio device ...''),
             ProcessExit 0]\<rparr>)
   \<and> (defaultSampleRate d = 48000 \<and> open_result e = None \<longrightarrow>
      clientReady e (Some d) s =
        s\<lparr>player := Some \<lparr>ap_status = Buffering, ap_stopping = False\<rparr>,
          audio := Some \<lparr>channelCount = 2, sampleFormat = 16, sampleRate = 48000,
                          deviceId = dev_id d, closeOnError = False, started = True\<rparr>,
          listening := True,
          trace := trace s @
            [ConsoleLog ''Server is ready ...'', CreateAudioPlayer, OpenAudioIO (dev_id d),
             PlayerPlay, AudioStart, PlayerOn ''idle'', PlayerOn ''error'',
             SetStatus ''online'']\<rparr>)"
  by (simp add: clientReady_def createStream_def lib_defs)

theorem clientReady_unsupported_rate_witness:
  "clientReady ex_env (Some (ex_device 44100)) init =
     init\<lparr>exited := Some 0,
          trace := [ConsoleLog ''Server is ready ...'', SetStatus ''invisible'',
                    ConsoleError ''Mic is not a supported audio device ...'', ProcessExit 0]\<rparr>
   \<and> clientReady ex_env (Some ex_mixer) init =
     init\<lparr>player := Some \<lparr>ap_status = Buffering, ap_stopping = False\<rparr>,
          audio := Some \<lparr>channelCount = 2, sampleFormat = 16, sampleRate = 48000,
                          deviceId = 2, closeOnError = False, started = True\<rparr>,
          listening := True,
          trace := [ConsoleLog ''Server is ready ...'', CreateAudioPlayer, OpenAudioIO 2,
                    PlayerPlay, AudioStart, PlayerOn ''idle'', PlayerOn ''error'',
                    SetStatus ''online'']\<rparr>"
  using clientReady_unsupported_rate [of "ex_device 44100" ex_env init]
        clientReady_unsupported_rate [of ex_mixer ex_env init]
  by (simp add: ex_device_def ex_mixer_def ex_env_def init_def)

text \<open>
  A device of 44100 Hz ends the process with the exit code 0; a device of 48000 Hz with
  eight input channels does not end it: the command handlers are registered.
\<close>

theorem clientReady_unsupported_rate_counterexample:
  "defaultSampleRate (ex_device 44100) \<noteq> 48000
   \<and> exited (clientReady ex_env (Some (ex_device 44100)) init) = Some 0
   \<and> maxInputChannels ex_mixer = 8
   \<and> exited (clientReady ex_env (Some ex_mixer) init) = None
   \<and> listening (clientReady ex_env (Some ex_mixer) init)"
  by (simp add: clientReady_def createStream_def lib_defs ex_device_def ex_mixer_def
      ex_env_def init_def)

subsection \<open>C6: the sample rate is checked before anything is built\<close>

text \<open>
  C6: for a device whose default sample rate is not 48000, \<^verbatim>\<open>createStream\<close> throws
  the error that names the device as unsupported, and the state is the one it was called
  in: no player was created, no capture stream was opened.
\<close>

theorem createStream_unsupported_rate:
  "defaultSampleRate d \<noteq> 48000 \<Longrightarrow>
   createStream e (Some d) s
     = (Inl (Error (dev_name d @ '' is not a supported audio device ...'')), s)"
  by (simp add: createStream_def)

theorem createStream_unsupported_rate_witness:
  "defaultSampleRate (ex_device 44100) \<noteq> 48000
   \<and> createStream ex_env (Some (ex_device 44100)) init
       = (Inl (Error ''Mic is not a supported audio device ...''), init)"
  using createStream_unsupported_rate [of "ex_device 44100" ex_env init]
  by (simp add: ex_device_def)

subsection \<open>C7: stop without a session\<close>

text \<open>
  C7: when the guild has no session, a stop command logs one line and sends the message
  that it cannot disconnect, and changes nothing else of the state. This is what the
  second of two stop commands in a row does, whatever the first did, once the player
  exists.
\<close>

theorem stop_not_connected:
  "(connections s (guild_id g) = None \<longrightarrow>
      voiceController e ''stop'' g None s =
        (send_result e (messageEmbedTemplate ''Error''
           ''Cannot disconnect from voice channel. Check logs for more details.''),
         s\<lparr>trace := trace s @
             [ConsoleLog ''Not connected to any voice channel ...'',
              ChannelSend (messageEmbedTemplate ''Error''
                ''Cannot disconnect from voice channel. Check logs for more details.'')]\<rparr>))
   \<and> (player s \<noteq> None \<and> guild_id g' = guild_id g \<longrightarrow>
      (let s1 = snd (voiceController e' ''stop'' g' None s) in
       voiceController e ''stop'' g None s1 =
        (send_result e (messageEmbedTemplate ''Error''
           ''Cannot disconnect from voice channel. Check logs for more details.''),
         s1\<lparr>trace := trace s1 @
             [ConsoleLog ''Not connected to any voice channel ...'',
              ChannelSend (messageEmbedTemplate ''Error''
                ''Cannot disconnect from voice channel. Check logs for more details.'')]\<rparr>)))"
proof -
  have first: "voiceController e ''stop'' g None s =
        (send_result e (messageEmbedTemplate ''Error''
           ''Cannot disconnect from voice channel. Check logs for more details.''),
         s\<lparr>trace := trace s @
             [ConsoleLog ''Not connected to any voice channel ...'',
              ChannelSend (messageEmbedTemplate ''Error''
                ''Cannot disconnect from voice channel. Check logs for more details.'')]\<rparr>)"
    if "connections s (guild_id g) = None" for s
    using that by (simp add: ctl_defs lib_defs)
  have second: "connections (snd (voiceController e' ''stop'' g' None s)) (guild_id g) = None"
    if "player s \<noteq> None" "guild_id g' = guild_id g"
    using that stop_state [of s _ e' g'] by auto
  show ?thesis
    using first [of s] first [OF second] by (simp add: Let_def)
qed

theorem stop_not_connected_witness:
  "voiceController ex_env ''stop'' (ex_guild None) None ex_ready =
     (None,
      ex_ready\<lparr>trace := trace ex_ready @
        [ConsoleLog ''Not connected to any voice channel ...'',
         ChannelSend (messageEmbedTemplate ''Error''
           ''Cannot disconnect from voice channel. Check logs for more details.'')]\<rparr>)
   \<and> voiceController ex_env ''stop'' (ex_guild None) None
        (snd (voiceController ex_env ''stop'' (ex_guild (Some ''123456789012345678'')) None
                ex_playing)) =
     (None,
      (snd (voiceController ex_env ''stop'' (ex_guild (Some ''123456789012345678'')) None
              ex_playing))
       \<lparr>trace := trace (snd (voiceController ex_env ''stop''
                               (ex_guild (Some ''123456789012345678'')) None ex_playing)) @
          [ConsoleLog ''Not connected to any voice channel ...'',
           ChannelSend (messageEmbedTemplate ''Error''
             ''Cannot disconnect from voice channel. Check logs for more details.'')]\<rparr>)"
  using stop_not_connected [of ex_ready "ex_guild None" ex_env "ex_guild None" ex_env]
        stop_not_connected [of ex_playing "ex_guild None" ex_env
          "ex_guild (Some ''123456789012345678'')" ex_env]
  by (simp add: ex_playing_eq ex_ready_eq ex_defs Let_def)

subsection \<open>C8: the SIGINT handler\<close>

text \<open>
  C8 says that the handler destroys every connection, then stops the stream pipeline, then
  releases the client and exits with the code of an interruption. The handler has no call
  that stops the player or the capture stream: as amended, when every guild with a
  connection is in the client's guild cache, the handler sets the status, destroys the
  connection of every such guild (whatever their number and order), then destroys the
  client and exits with 130, which a failed startup never exits with; no call is made on
  the player or on the capture stream.
\<close>

theorem sigint_shutdown:
  assumes "\<forall>gid. connections s gid \<noteq> None \<longrightarrow> gid \<in> guild_id ` set guilds"
  shows "connections (sigint guilds s) = Map.empty
    \<and> exited (sigint guilds s) = Some 130
    \<and> player (sigint guilds s) = player s \<and> audio (sigint guilds s) = audio s
    \<and> (\<exists>mid. trace (sigint guilds s) =
          trace s @ [ConsoleLog ''Setting status to invisible'', SetStatus ''invisible'',
                     ConsoleLog ''Leaving voice channels'']
          @ mid
          @ [ConsoleLog ''Disconnecting from Discord'', ClientDestroy,
             ConsoleLog ''Stopping server ...'', ProcessExit 130]
        \<and> list_all leaving mid
        \<and> (\<forall>gid. connections s gid \<noteq> None \<longrightarrow> ConnectionDestroy gid \<in> set mid))
    \<and> exited (clientReady e dev init) \<noteq> Some 130"
proof -
  let ?s0 = "emit (ConsoleLog ''Leaving voice channels'')
               (emit (SetStatus ''invisible'')
                  (emit (ConsoleLog ''Setting status to invisible'') s))"
  have c0: "connections ?s0 = connections s"
    by (simp add: lib_defs)
  have conn: "connections (sigint guilds s) = Map.empty"
  proof
    fix gid
    show "connections (sigint guilds s) gid = None"
      using assms c0
      by (cases "connections s gid") (auto simp: sigint_def lib_defs leave_guilds_connections)
  qed
  have frame: "exited (sigint guilds s) = Some 130 \<and> player (sigint guilds s) = player s
      \<and> audio (sigint guilds s) = audio s"
    using leave_guilds_frame [of guilds ?s0] by (simp add: sigint_def lib_defs)
  obtain mid where m: "trace (leave_guilds guilds ?s0) = trace ?s0 @ mid" "list_all leaving mid"
      "\<forall>gid. gid \<in> guild_id ` set guilds \<and> connections ?s0 gid \<noteq> None
         \<longrightarrow> ConnectionDestroy gid \<in> set mid"
    using leave_guilds_trace [of guilds ?s0] by blast
  have tr: "trace (sigint guilds s) =
          trace s @ [ConsoleLog ''Setting status to invisible'', SetStatus ''invisible'',
                     ConsoleLog ''Leaving voice channels'']
          @ mid
          @ [ConsoleLog ''Disconnecting from Discord'', ClientDestroy,
             ConsoleLog ''Stopping server ...'', ProcessExit 130]"
    using m(1) by (simp add: sigint_def lib_defs)
  have all: "\<forall>gid. connections s gid \<noteq> None \<longrightarrow> ConnectionDestroy gid \<in> set mid"
    using m(3) assms c0 by auto
  have start: "exited (clientReady e dev init) \<noteq> Some 130"
    by (auto simp: clientReady_def createStream_def init_def lib_defs Let_def
        split: option.splits)
  show ?thesis
    using conn frame tr m(2) all start by blast
qed

theorem sigint_shutdown_witness:
  "connections (sigint [ex_guild2, ex_guild None] ex_two) = Map.empty
   \<and> connections (sigint [ex_guild None, ex_guild2] ex_two) = Map.empty
   \<and> exited (sigint [ex_guild2, ex_guild None] ex_two) = Some 130
   \<and> ConnectionDestroy ''G1'' \<in> set (trace (sigint [ex_guild2, ex_guild None] ex_two))
   \<and> ConnectionDestroy ''G2'' \<in> set (trace (sigint [ex_guild2, ex_guild None] ex_two))"
proof -
  have h1: "\<forall>gid. connections ex_two gid \<noteq> None
              \<longrightarrow> gid \<in> guild_id ` set [ex_guild2, ex_guild None]"
    by (simp add: ex_two_eq ex_playing_eq ex_ready_eq ex_guild2_def ex_defs)
  have h2: "\<forall>gid. connections ex_two gid \<noteq> None
              \<longrightarrow> gid \<in> guild_id ` set [ex_guild None, ex_guild2]"
    by (simp add: ex_two_eq ex_playing_eq ex_ready_eq ex_guild2_def ex_defs)
  have c: "connections ex_two ''G1'' \<noteq> None" "connections ex_two ''G2'' \<noteq> None"
    by (simp_all add: ex_two_eq ex_playing_eq ex_ready_eq)
  show ?thesis
    using sigint_shutdown [OF h1, of ex_env None] sigint_shutdown [OF h2, of ex_env None] c
    by auto
qed

text \<open>
  With two guilds connected, the handler calls no stop of the player: the player and the
  capture stream are as they were.
\<close>

theorem sigint_shutdown_counterexample:
  "connections ex_two ''G1'' \<noteq> None \<and> connections ex_two ''G2'' \<noteq> None
   \<and> player ex_two = Some \<lparr>ap_status = Buffering, ap_stopping = False\<rparr>
   \<and> player (sigint [ex_guild None, ex_guild2] ex_two)
       = Some \<lparr>ap_status = Buffering, ap_stopping = False\<rparr>
   \<and> audio (sigint [ex_guild None, ex_guild2] ex_two) = audio ex_two
   \<and> audio ex_two \<noteq> None
   \<and> PlayerStop \<notin> set (trace (sigint [ex_guild None, ex_guild2] ex_two))"
  by (simp add: ex_two_eq ex_playing_eq ex_ready_eq sigint_def ex_guild2_def ex_defs lib_defs)

subsection \<open>C9: play, stop, play\<close>

text \<open>
  C9 says that in one guild a play command, a stop command and a play command to a second
  channel succeed and leave the guild connected to the second channel, whatever the timing
  of the connection. When the stop command arrives before the voice channel of the bot
  is cached, it destroys the connection and then throws on \<^verbatim>\<open>connectedTo.id\<close>
  (index.js 171). When the three commands all report success, the guild is connected to
  the second channel, but the player was told to stop: it plays its silence padding
  frames to the new connection and becomes Idle, and its Idle listener throws
  (stream.js 52).
\<close>

theorem play_stop_play_fails:
  "fst (messageCreate ex_env (ex_message ''@bot stop'' None) ex_playing)
     = Some (cannot_read ''id'')
   \<and> (let s2 = snd (messageCreate ex_env
                      (ex_message ''@bot stop'' (Some ''123456789012345678'')) ex_playing);
           r3 = messageCreate ex_env (ex_message ''@bot play 223456789012345678'' None) s2
       in fst (messageCreate ex_env
                 (ex_message ''@bot stop'' (Some ''123456789012345678'')) ex_playing) = None
          \<and> fst r3 = None
          \<and> connections (snd r3) ''G1''
              = Some \<lparr>vc_channel = ''223456789012345678'', vc_player = True\<rparr>
          \<and> fst (audio_cycle ''G1'' (snd r3))
              = Some (ReferenceError ''connection is not defined''))"
  by (simp add: msg_defs digits_iff ex_playing_eq ex_ready_eq Let_def ex_defs ctl_defs lib_defs
      AudioPlayer_stop_def audio_cycle_def idle_listener_def)

subsection \<open>C10: a target is an id when it is 18 digits, else a name\<close>

text \<open>
  C10: the target of a play command is passed to the controller as a channel id when it
  is 18 decimal digits and nothing else; any other target, a number of 17 or 19 digits
  too, is looked up among the voice channels of the guild by equality of the name, and the
  id of the first such channel is passed on (none found: the handler throws).
\<close>

theorem play_target:
  "t \<noteq> [] \<Longrightarrow>
   play_command e g (Some ''play'') (Some t) s =
     (let s1 = emit (ConsoleLog (''Connecting to voice channel ('' @ t @ '') ...'')) s in
      if length t = 18 \<and> set t \<subseteq> set ''0123456789''
      then voiceController e ''play'' g (Some t) s1
      else case filter (\<lambda>c. ch_type c = GuildVoice \<and> ch_name c = t) (guild_channels g) of
             [] \<Rightarrow> (Some (cannot_read ''id''), s1)
           | c # cs \<Rightarrow> voiceController e ''play'' g (Some (ch_id c)) s1)"
proof -
  assume ne: "t \<noteq> []"
  have m: "match_id t \<longleftrightarrow> length t = 18 \<and> set t \<subseteq> set ''0123456789''"
    unfolding match_id_def digits_iff list_all_iff is_digit_def by blast
  have j: "joinChannelId g t =
     (if length t = 18 \<and> set t \<subseteq> set ''0123456789'' then Inr t
      else case filter (\<lambda>c. ch_type c = GuildVoice \<and> ch_name c = t) (guild_channels g) of
             [] \<Rightarrow> Inl (cannot_read ''id'')
           | c # cs \<Rightarrow> Inr (ch_id c))"
    unfolding joinChannelId_def getVoiceChannelByName_def find_filter
    using m by (simp split: list.splits)
  show ?thesis
    using ne by (simp add: play_command_def j falsy_def show_id_def Let_def split: list.splits)
qed

theorem play_target_witness:
  "play_command ex_env (ex_guild None) (Some ''play'') (Some ''12345678901234567'') init
     = (Some (cannot_read ''id''),
        emit (ConsoleLog ''Connecting to voice channel (12345678901234567) ...'') init)
   \<and> play_command ex_env (ex_guild None) (Some ''play'') (Some ''1234567890123456789'') init
     = (Some (cannot_read ''id''),
        emit (ConsoleLog ''Connecting to voice channel (1234567890123456789) ...'') init)
   \<and> play_command ex_env (ex_guild None) (Some ''play'') (Some ''lounge'') init
     = (Some (cannot_read ''id''),
        emit (ConsoleLog ''Connecting to voice channel (lounge) ...'') init)
   \<and> play_command ex_env (ex_guild None) (Some ''play'') (Some ''Lounge'') init
     = voiceController ex_env ''play'' (ex_guild None) (Some ''123456789012345678'')
         (emit (ConsoleLog ''Connecting to voice channel (Lounge) ...'') init)
   \<and> play_command ex_env (ex_guild None) (Some ''play'') (Some ''323456789012345678'') init
     = voiceController ex_env ''play'' (ex_guild None) (Some ''323456789012345678'')
         (emit (ConsoleLog ''Connecting to voice channel (323456789012345678) ...'') init)"
  using play_target [of "''12345678901234567''" ex_env "ex_guild None" init]
        play_target [of "''1234567890123456789''" ex_env "ex_guild None" init]
        play_target [of "''lounge''" ex_env "ex_guild None" init]
        play_target [of "''Lounge''" ex_env "ex_guild None" init]
        play_target [of "''323456789012345678''" ex_env "ex_guild None" init]
  by (simp add: ex_guild_def ex_channels_def)

subsection \<open>An id that is no voice channel\<close>

text \<open>
  A play command whose channel id is not in the client's cache, or is the id of a channel
  that is no voice channel, logs and sends the message that the channel is invalid; no
  join is attempted and nothing else of the state changes.
\<close>

theorem play_invalid_id:
  assumes "cache_get (client_channels e) t = None
           \<or> (\<exists>vc. cache_get (client_channels e) t = Some vc \<and> ch_type vc \<noteq> GuildVoice)"
  shows "voiceController e ''play'' g (Some t) s =
    (send_result e (messageEmbedTemplate ''Error''
       (''The voice channel ('' @ t @ '') is invalid or does not exist.'')),
     s\<lparr>trace := trace s @
         [ConsoleError (''The voice channel ('' @ t @ '') is invalid or does not exist ...''),
          ChannelSend (messageEmbedTemplate ''Error''
            (''The voice channel ('' @ t @ '') is invalid or does not exist.''))]\<rparr>)"
  using assms by (auto simp: ctl_defs lib_defs)

theorem play_invalid_id_witness:
  "voiceController ex_env ''play'' (ex_guild None) (Some ''323456789012345678'') ex_ready =
    (None,
     ex_ready\<lparr>trace := trace ex_ready @
       [ConsoleError ''The voice channel (323456789012345678) is invalid or does not exist ...'',
        ChannelSend (messageEmbedTemplate ''Error''
          ''The voice channel (323456789012345678) is invalid or does not exist.'')]\<rparr>)
   \<and> voiceController ex_env ''play'' (ex_guild None) (Some ''999999999999999999'') ex_ready =
    (None,
     ex_ready\<lparr>trace := trace ex_ready @
       [ConsoleError ''The voice channel (999999999999999999) is invalid or does not exist ...'',
        ChannelSend (messageEmbedTemplate ''Error''
          ''The voice channel (999999999999999999) is invalid or does not exist.'')]\<rparr>)"
  using play_invalid_id [of ex_env "''323456789012345678''" "ex_guild None" ex_ready]
        play_invalid_id [of ex_env "''999999999999999999''" "ex_guild None" ex_ready]
  by (simp add: ex_ready_eq ex_defs cache_get_def)

end
